theory Spec2Isabelle
  imports Main
begin

section \<open>rafka: process startup and shutdown (rafka.go)\<close>

text \<open>
  The repository's Go source is \<^verbatim>\<open>rafka.go\<close>: the command line application
  (\<^verbatim>\<open>main\<close>, with its \<^verbatim>\<open>Before\<close> hook and its \<^verbatim>\<open>Action\<close>) and
  \<^verbatim>\<open>run\<close>, which spawns the consumer manager and the Redis server and shuts them
  down on a signal. Everything the process does beyond returning a value is written as
  an event of a trace; what the operating system, the libraries and the types that
  \<^verbatim>\<open>rafka.go\<close> only calls (\<^verbatim>\<open>os.Open\<close>, the JSON decoder,
  \<^verbatim>\<open>RedisServer.ListenAndServe\<close>, \<^verbatim>\<open>Manager.Run\<close>) do is a parameter.
  The interface \<^verbatim>\<open>Consumer\<close> that the file declares is used by nothing in it.
\<close>

subsection \<open>Errors, configuration values, events\<close>

text \<open>
  A Go \<^verbatim>\<open>error\<close> value: \<^verbatim>\<open>cli.NewExitError(message, exitCode)\<close>, which
  implements \<^verbatim>\<open>cli.ExitCoder\<close>, or any other error with its message. The nil
  error is \<open>None\<close> of \<open>go_error option\<close>.
\<close>

datatype go_error = ExitError string int | Err string

definition NewExitError :: "string \<Rightarrow> int \<Rightarrow> go_error" where
  "NewExitError message exitCode = ExitError message exitCode"

text \<open>
  \<^verbatim>\<open>kafka.ConfigMap\<close> is \<^verbatim>\<open>map[string]ConfigValue\<close>; the decoder runs with
  \<^verbatim>\<open>UseNumber\<close>, so a JSON number is kept as its text.
\<close>

datatype ConfigValue =
    CNull
  | CBool bool
  | CNumber string
  | CString string
  | CArray "ConfigValue list"
  | CObject "(string \<times> ConfigValue) list"

type_synonym ConfigMap = "string \<rightharpoonup> ConfigValue"

text \<open>
  \<^verbatim>\<open>cli.Context\<close>: the flags given on the command line, by name.
  \<^verbatim>\<open>c.String(name)\<close> is the flag's value, or its default \<^verbatim>\<open>Value\<close>, which
  is the empty string for both flags of the application (\<^verbatim>\<open>consumer\<close> and
  \<^verbatim>\<open>kafka\<close>). The command line is taken to hold these flags only
  (\<open>defined_flags\<close>): given a flag that is not defined, or the help flag, the
  library calls neither the hook nor the action, and given the help subcommand it calls
  the hook but not the action.
\<close>

type_synonym Context = "(string \<times> string) list"

definition c_String :: "Context \<Rightarrow> string \<Rightarrow> string" where
  "c_String c name = (case map_of c name of None \<Rightarrow> [] | Some v \<Rightarrow> v)"

definition defined_flags :: "Context \<Rightarrow> bool" where
  "defined_flags c = list_all (\<lambda>flag. fst flag = ''consumer'' \<or> fst flag = ''kafka'') c"

text \<open>
  The events of a trace: opening and closing the configuration file, a line that the
  command line library prints to the error stream, \<^verbatim>\<open>signal.Notify\<close>, a line of
  the logger \<^verbatim>\<open>l\<close> (its prefix, date and time left out), the two constructors and
  the two \<^verbatim>\<open>go\<close> statements of \<^verbatim>\<open>run\<close> (the server's with the address it is
  asked to listen on), the cancellation of a context, and a panic.
\<close>

datatype ctx_name = redisCtx | managerCtx

datatype event =
    Open string
  | Close string
  | Stderr string
  | Notify
  | Println string
  | NewManager
  | Go_manager_Run
  | NewRedisServer nat
  | Go_ListenAndServe string
  | Cancel ctx_name
  | Panic go_error

subsection \<open>The startup hook\<close>

text \<open>
  The file system and the JSON decoder, as \<^verbatim>\<open>Before\<close> uses them:
  \<^verbatim>\<open>os.Open(path)\<close> gives an error or the file (its contents), and
  \<^verbatim>\<open>dec.Decode(&kafkacfg)\<close> gives an error or nil, and the map it leaves in the
  global \<^verbatim>\<open>kafkacfg\<close>.
\<close>

record os_env =
  os_Open :: "string \<Rightarrow> go_error + string"
  json_Decode :: "string \<Rightarrow> ConfigMap \<Rightarrow> go_error option \<times> ConfigMap"

text \<open>
  \<^verbatim>\<open>app.Before\<close>. The result is the error returned (or nil), the global
  \<^verbatim>\<open>kafkacfg\<close> afterwards and the file events; the deferred
  \<^verbatim>\<open>f.Close()\<close> runs on every return after a successful open.
\<close>

definition Before :: "os_env \<Rightarrow> Context \<Rightarrow> ConfigMap \<Rightarrow> go_error option \<times> ConfigMap \<times> event list" where
  "Before os c kafkacfg =
     (if c_String c ''kafka'' = []
      then (Some (NewExitError ''No kafka configuration!'' 1), kafkacfg, [])
      else
        (case os_Open os (c_String c ''kafka'') of
           Inl err \<Rightarrow> (Some err, kafkacfg, [])
         | Inr f \<Rightarrow>
             (case json_Decode os f kafkacfg of
                (Some err, kafkacfg') \<Rightarrow>
                  (Some err, kafkacfg', [Open (c_String c ''kafka''), Close (c_String c ''kafka'')])
              | (None, kafkacfg') \<Rightarrow>
                  (None, kafkacfg', [Open (c_String c ''kafka''), Close (c_String c ''kafka'')]))))"

subsection \<open>run: spawning and shutting down\<close>

text \<open>
  How a blocking call of a type that \<^verbatim>\<open>rafka.go\<close> only uses ends: it returns by
  itself (before any shutdown signal), it returns only once its context is cancelled, or
  it never returns. \<open>await call cancelled\<close> is what the call has returned, if it
  has, given whether its context has been cancelled.
\<close>

datatype 'a blocking = Returns 'a | ReturnsOnCancel 'a | Never

fun await :: "'a blocking \<Rightarrow> bool \<Rightarrow> 'a option" where
  "await (Returns r) cancelled = Some r"
| "await (ReturnsOnCancel r) cancelled = (if cancelled then Some r else None)"
| "await Never cancelled = None"

text \<open>
  The environment of \<^verbatim>\<open>run\<close>: whether SIGINT or SIGTERM is ever delivered to
  \<^verbatim>\<open>sigCh\<close>, how \<^verbatim>\<open>redisServer.ListenAndServe(addr)\<close> ends (with an error
  or nil), and how \<^verbatim>\<open>manager.Run()\<close> ends. The serving goroutine defers
  \<^verbatim>\<open>redisWg.Done()\<close>, which also runs while the goroutine panics, before the
  runtime ends the process: a main goroutine that waits in \<^verbatim>\<open>redisWg.Wait()\<close>
  is released and goes on until the process ends. \<open>main_steps\<close> is the schedule of
  that race: the number of further events of the main goroutine that happen before the
  runtime ends the process.
\<close>

record run_env =
  signal_arrives :: bool
  ListenAndServe :: "string \<Rightarrow> go_error option blocking"
  manager_Run :: "unit blocking"
  main_steps :: nat

datatype goroutine = Executing | Finished | Panicked go_error

text \<open>
  The two goroutines of \<^verbatim>\<open>run\<close>. The serving goroutine calls
  \<^verbatim>\<open>redisServer.ListenAndServe(":6380")\<close> and panics with the error when it is
  not nil.
\<close>

definition manager_goroutine :: "run_env \<Rightarrow> bool \<Rightarrow> goroutine" where
  "manager_goroutine env cancelled =
     (case await (manager_Run env) cancelled of
        None \<Rightarrow> Executing
      | Some u \<Rightarrow> Finished)"

definition redis_goroutine :: "run_env \<Rightarrow> bool \<Rightarrow> goroutine" where
  "redis_goroutine env cancelled =
     (case await (ListenAndServe env '':6380'') cancelled of
        None \<Rightarrow> Executing
      | Some err \<Rightarrow>
          (case err of
             Some e \<Rightarrow> Panicked e
           | None \<Rightarrow> Finished))"

text \<open>
  How a function call or the process ends: it returns (\<open>Return\<close>), the process
  exits through \<^verbatim>\<open>os.Exit(code)\<close>, an unrecovered panic of a goroutine crashes
  the process, or the call blocks forever.
\<close>

datatype 'a ending = Return 'a | Exit int | Crash go_error | Blocked

text \<open>
  The end of \<^verbatim>\<open>run\<close>, once \<^verbatim>\<open>redisWg.Wait()\<close> has returned: the manager's
  context is cancelled and \<^verbatim>\<open>managerWg.Wait()\<close> waits for \<^verbatim>\<open>manager.Run()\<close>
  to return, with no time-out.
\<close>

definition shutdown_manager :: "run_env \<Rightarrow> event list \<times> unit ending" where
  "shutdown_manager env =
     (let waiting =
            [Println ''Waiting for consumer manager to shutdown...'', Cancel managerCtx]
      in case manager_goroutine env True of
           Executing \<Rightarrow> (waiting, Blocked)
         | Panicked e \<Rightarrow> (waiting @ [Panic e], Crash e)
         | Finished \<Rightarrow> (waiting @ [Println ''Bye!''], Return ()))"

text \<open>
  What is left of a continuation of the main goroutine when the runtime ends the
  process, for the panic \<open>e\<close>, after \<open>n\<close> further events: the continuation as it
  is when it returns within fewer events, and otherwise its first \<open>n\<close> events and a
  crash.
\<close>

definition killed_after :: "nat \<Rightarrow> go_error \<Rightarrow> event list \<times> unit ending \<Rightarrow> event list \<times> unit ending" where
  "killed_after n e continuation =
     (case continuation of
        (evs, Return u) \<Rightarrow>
          if length evs < n then (evs, Return u) else (take n evs, Crash e)
      | (evs, Exit code) \<Rightarrow> (take n evs, Crash e)
      | (evs, Crash e') \<Rightarrow> (take n evs, Crash e)
      | (evs, Blocked) \<Rightarrow> (take n evs, Crash e))"

text \<open>
  \<^verbatim>\<open>run(c)\<close>: the trace of the main goroutine, with the panic of the serving
  goroutine, and how the call ends. The argument \<^verbatim>\<open>c\<close> is not read. An error that
  \<^verbatim>\<open>ListenAndServe\<close> returns by itself is taken to come, and to end the process,
  before the signal: the main goroutine then still waits for the signal. An error
  that it returns once its context is cancelled finds the main goroutine in
  \<^verbatim>\<open>redisWg.Wait()\<close>, which the deferred \<^verbatim>\<open>redisWg.Done()\<close> releases. The
  time-out handed to \<^verbatim>\<open>NewRedisServer\<close> is \<^verbatim>\<open>5*time.Second\<close>, in seconds
  here.
\<close>

definition startup_events :: "event list" where
  "startup_events =
     [Notify,
      Println ''Spawning Consumer Manager'', NewManager, Go_manager_Run,
      Println ''Spawning Redis server'', NewRedisServer 5, Go_ListenAndServe '':6380'']"

definition run :: "run_env \<Rightarrow> Context \<Rightarrow> event list \<times> unit ending" where
  "run env c =
     (case redis_goroutine env False of
        Panicked e \<Rightarrow> (startup_events @ [Panic e], Crash e)
      | _ \<Rightarrow>
          if \<not> signal_arrives env then (startup_events, Blocked)
          else
            (let received = startup_events @
                   [Println ''Received shutdown signal..'',
                    Println ''Waiting for redis server to shutdown...'',
                    Cancel redisCtx]
             in case redis_goroutine env True of
                  Panicked e \<Rightarrow>
                    (case killed_after (main_steps env) e (shutdown_manager env) of
                       (evs, r) \<Rightarrow> (received @ [Panic e] @ evs, r))
                | Executing \<Rightarrow> (received, Blocked)
                | Finished \<Rightarrow>
                    (case shutdown_manager env of
                       (evs, r) \<Rightarrow> (received @ evs, r))))"

subsection \<open>The application\<close>

text \<open>
  A caller that returns \<open>r\<close> once the call it made has returned; it ends as that call
  does when the call does not return.
\<close>

fun returning :: "unit ending \<Rightarrow> 'a \<Rightarrow> 'a ending" where
  "returning (Return u) r = Return r"
| "returning (Exit code) r = Exit code"
| "returning (Crash e) r = Crash e"
| "returning Blocked r = Blocked"

text \<open>
  \<^verbatim>\<open>app.Action\<close> calls \<^verbatim>\<open>run(c)\<close> and returns nil.
\<close>

definition Action :: "run_env \<Rightarrow> Context \<Rightarrow> event list \<times> go_error option ending" where
  "Action env c = (case run env c of (evs, e) \<Rightarrow> (evs, returning e None))"

text \<open>
  \<^verbatim>\<open>cli.HandleExitCoder\<close> and \<^verbatim>\<open>App.Run\<close> of the command line library
  (github.com/urfave/cli, not part of this repository), by their documented contract:
  \<^verbatim>\<open>HandleExitCoder(err)\<close> does nothing for nil and for an error that is no
  \<^verbatim>\<open>ExitCoder\<close>; for an \<^verbatim>\<open>ExitCoder\<close> it prints the message, when there is
  one, to the error stream and exits the process with the error's code.
  \<^verbatim>\<open>Run\<close> calls the \<^verbatim>\<open>Before\<close> hook first; when the hook returns an error,
  \<^verbatim>\<open>Run\<close> hands it to \<^verbatim>\<open>HandleExitCoder\<close> and returns it, and the action is
  not run; otherwise it runs the action, hands its result to
  \<^verbatim>\<open>HandleExitCoder\<close> and returns it. The help text the library prints is left
  out.
\<close>

definition HandleExitCoder :: "go_error option \<Rightarrow> event list \<times> unit ending" where
  "HandleExitCoder err =
     (case err of
        None \<Rightarrow> ([], Return ())
      | Some (ExitError message code) \<Rightarrow>
          (if message = [] then [] else [Stderr message], Exit code)
      | Some (Err message) \<Rightarrow> ([], Return ()))"

record process =
  events :: "event list"
  ending :: "go_error option ending"
  kafkacfg_of :: ConfigMap

definition app_Run :: "os_env \<Rightarrow> run_env \<Rightarrow> Context \<Rightarrow> ConfigMap \<Rightarrow> process" where
  "app_Run os env c kafkacfg =
     (case Before os c kafkacfg of
        (Some beforeErr, kafkacfg', evs) \<Rightarrow>
          (case HandleExitCoder (Some beforeErr) of
             (evs', e) \<Rightarrow>
               \<lparr>events = evs @ evs', ending = returning e (Some beforeErr),
                kafkacfg_of = kafkacfg'\<rparr>)
      | (None, kafkacfg', evs) \<Rightarrow>
          (case Action env c of
             (evs', Return err) \<Rightarrow>
               (case HandleExitCoder err of
                  (evs'', e) \<Rightarrow>
                    \<lparr>events = evs @ evs' @ evs'', ending = returning e err,
                     kafkacfg_of = kafkacfg'\<rparr>)
           | (evs', Exit code) \<Rightarrow>
               \<lparr>events = evs @ evs', ending = Exit code, kafkacfg_of = kafkacfg'\<rparr>
           | (evs', Crash e) \<Rightarrow>
               \<lparr>events = evs @ evs', ending = Crash e, kafkacfg_of = kafkacfg'\<rparr>
           | (evs', Blocked) \<Rightarrow>
               \<lparr>events = evs @ evs', ending = Blocked, kafkacfg_of = kafkacfg'\<rparr>))"

text \<open>
  \<^verbatim>\<open>main\<close>: the global \<^verbatim>\<open>kafkacfg\<close> starts as the nil map; the error
  that \<^verbatim>\<open>app.Run\<close> returns is dropped, so the process then ends with status 0.
\<close>

definition main :: "os_env \<Rightarrow> run_env \<Rightarrow> Context \<Rightarrow> process" where
  "main os env c =
     (let p = app_Run os env c Map.empty
      in case ending p of
           Return err \<Rightarrow> p\<lparr>ending := Exit 0\<rparr>
         | _ \<Rightarrow> p)"

text \<open>What a trace spawned, and the addresses it listened on.\<close>

fun is_spawn :: "event \<Rightarrow> bool" where
  "is_spawn NewManager = True"
| "is_spawn Go_manager_Run = True"
| "is_spawn (NewRedisServer t) = True"
| "is_spawn (Go_ListenAndServe a) = True"
| "is_spawn e = False"

definition spawned :: "event list \<Rightarrow> event list" where
  "spawned evs = filter is_spawn evs"

fun listen_addresses :: "event list \<Rightarrow> string list" where
  "listen_addresses [] = []"
| "listen_addresses (Go_ListenAndServe a # evs) = a # listen_addresses evs"
| "listen_addresses (e # evs) = listen_addresses evs"

section \<open>The consumer manager\<close>

text \<open>
  \<^verbatim>\<open>rafka.go\<close> only calls \<^verbatim>\<open>NewManager\<close> and \<^verbatim>\<open>manager.Run()\<close>;
  the manager, its registry and the consumer sessions are described by the
  specification, and the definitions of this section follow its words.
\<close>

subsection \<open>Sessions and the registry\<close>

type_synonym GroupIdentity = "string \<times> string"

text \<open>A message as the protocol replies it: topic, partition, offset, value.\<close>

type_synonym Message = "string \<times> nat \<times> nat \<times> string"

text \<open>
  Modelled from the spec: the state machine of a Consumer Session (the session type is
  not among the sources), \<^verbatim>\<open>Created -> Running -> (Draining on Close) -> Closed\<close>
  with the side transition \<^verbatim>\<open>Running -> Dead\<close>.
\<close>

datatype session_state = Created | Running | Draining | Closed | Dead

text \<open>
  Modelled from the spec: the Consumer Session (not among the sources). Its state is the
  Group Identity, the subscribed topic, the current partition assignment, the
  single-slot delivery queue and the last commit timestamp; \<open>state\<close> is its place in
  the state machine. A session tracks and commits offsets: \<open>start_offsets\<close> are the
  committed offsets it inherited when it was created, by partition, from which it
  resumes, and \<open>offsets\<close> the offsets it tracks, one past the last message delivered
  to its caller, for the partitions it was delivered messages of.
\<close>

record ConsumerSession =
  identity :: GroupIdentity
  topic :: string
  assignment :: "nat set"
  delivery_queue :: "Message option"
  last_commit :: nat
  state :: session_state
  start_offsets :: "nat \<rightharpoonup> nat"
  offsets :: "nat \<rightharpoonup> nat"

text \<open>
  Modelled from the spec: the Manager (not among the sources) owns the registry of live
  Consumer Sessions, keyed by (group, id), kept here in order of registration. The
  offsets committed to the log, by group, topic and partition, belong to the external
  log; they are carried along because a new session inherits them.
\<close>

record Manager =
  registry :: "(GroupIdentity \<times> ConsumerSession) list"
  committed :: "string \<Rightarrow> string \<Rightarrow> nat \<rightharpoonup> nat"

datatype manager_error = DuplicateIdentity

text \<open>
  Modelled from the spec: a new Manager (\<^verbatim>\<open>NewManager\<close> is not among the sources)
  has an empty registry; nothing has been committed to the log yet.
\<close>

definition NewManager_state :: Manager where
  "NewManager_state = \<lparr>registry = [], committed = (\<lambda>grp tp. Map.empty)\<rparr>"

text \<open>
  Modelled from the spec: \<^verbatim>\<open>Lookup(group, id) -> Session, found\<close> (not among the
  sources), a non-blocking read of the registry.
\<close>

definition Lookup :: "Manager \<Rightarrow> string \<Rightarrow> string \<Rightarrow> ConsumerSession option" where
  "Lookup m grp ident = map_of (registry m) (grp, ident)"

text \<open>
  Modelled from the spec: the creation of a Consumer Session (not among the sources),
  bound to its topic and started, so \<open>Running\<close>, with an empty assignment and an
  empty delivery queue; it inherits the offsets that the log holds committed for its
  group, and has been delivered no message yet.
\<close>

definition NewConsumerSession :: "Manager \<Rightarrow> string \<Rightarrow> string \<Rightarrow> string \<Rightarrow> ConsumerSession" where
  "NewConsumerSession m grp ident tp =
     \<lparr>identity = (grp, ident), topic = tp, assignment = {}, delivery_queue = None,
      last_commit = 0, state = Running, start_offsets = committed m grp tp,
      offsets = Map.empty\<rparr>"

text \<open>
  Modelled from the spec: \<^verbatim>\<open>Register(group, id, topic) -> (Session, error)\<close> (not
  among the sources) fails with \<open>DuplicateIdentity\<close> if an active session already
  holds (group, id); otherwise it creates and starts a new Consumer Session bound to
  the topic, adds it to the registry and returns it.
\<close>

definition Register :: "Manager \<Rightarrow> string \<Rightarrow> string \<Rightarrow> string \<Rightarrow> (manager_error + ConsumerSession) \<times> Manager" where
  "Register m grp ident tp =
     (case Lookup m grp ident of
        Some held \<Rightarrow> (Inl DuplicateIdentity, m)
      | None \<Rightarrow>
          (let s = NewConsumerSession m grp ident tp
           in (Inr s, m\<lparr>registry := registry m @ [((grp, ident), s)]\<rparr>)))"

text \<open>
  Modelled from the spec: \<^verbatim>\<open>Unregister(group, id)\<close> (not among the sources)
  removes the identity from the registry and signals the session to stop;
  unregistering an unknown identity is a no-op.
\<close>

definition Unregister :: "Manager \<Rightarrow> string \<Rightarrow> string \<Rightarrow> Manager" where
  "Unregister m grp ident =
     m\<lparr>registry := filter (\<lambda>entry. fst entry \<noteq> (grp, ident)) (registry m)\<rparr>"

text \<open>
  Modelled from the spec: what the internal loop of a session (not among the sources)
  does to offsets. A message of a partition delivered to the caller moves the tracked
  offset of that partition past it. A commit stores the tracked offsets of the session
  in the log, for its group and topic: the partitions the session tracks are updated,
  and what is committed for the other partitions stays.
\<close>

definition Delivered :: "Manager \<Rightarrow> string \<Rightarrow> string \<Rightarrow> nat \<Rightarrow> nat \<Rightarrow> Manager" where
  "Delivered m grp ident part off =
     m\<lparr>registry :=
         map (\<lambda>entry. if fst entry = (grp, ident)
                then (fst entry, (snd entry)\<lparr>offsets := (offsets (snd entry))(part \<mapsto> Suc off)\<rparr>)
                else entry)
           (registry m)\<rparr>"

definition CommitOffsets :: "Manager \<Rightarrow> string \<Rightarrow> string \<Rightarrow> Manager" where
  "CommitOffsets m grp ident =
     (case Lookup m grp ident of
        None \<Rightarrow> m
      | Some s \<Rightarrow>
          m\<lparr>committed :=
               (committed m)(grp := (committed m grp)
                  (topic s := committed m grp (topic s) ++ offsets s))\<rparr>)"

text \<open>
  Modelled from the spec: \<^verbatim>\<open>Close()\<close> of a Consumer Session (not among the
  sources) stops its internal loop and releases the log handle; the session ends
  \<open>Closed\<close>, and closing again changes nothing.
\<close>

definition Close_session :: "ConsumerSession \<Rightarrow> ConsumerSession" where
  "Close_session s = s\<lparr>state := Closed\<rparr>"

text \<open>
  Modelled from the spec: the teardown of a consumer connection (the connection handler
  is not among the sources) calls \<^verbatim>\<open>Close\<close> on the bound Consumer Session and
  then \<^verbatim>\<open>Manager.Unregister\<close>; this is the only path by which a Group Identity
  becomes reclaimable. The loop of the closing session makes its final offset commit
  before it exits (section 9 of the specification; the end-to-end test closes a consumer
  to "commit offsets and shutdown"), and \<^verbatim>\<open>Close\<close> waits for the loop to exit, so
  the commit has landed when the teardown is over. The race of section 9 is about a
  sibling that is assigned the partitions before that.
\<close>

definition teardown :: "Manager \<Rightarrow> string \<Rightarrow> string \<Rightarrow> Manager" where
  "teardown m grp ident =
     Unregister
       ((CommitOffsets m grp ident)
          \<lparr>registry :=
             map (\<lambda>entry. if fst entry = (grp, ident)
                    then (fst entry, Close_session (snd entry)) else entry)
               (registry m)\<rparr>)
       grp ident"

text \<open>
  Modelled from the spec: the request loop of the Manager (\<^verbatim>\<open>Manager.Run\<close> is not
  among the sources) is the only writer of the registry and handles one request at a
  time, starting from a new Manager.
\<close>

datatype request =
    ReqRegister string string string
  | ReqUnregister string string
  | ReqTeardown string string
  | ReqDelivered string string nat nat
  | ReqCommit string string

fun handle :: "Manager \<Rightarrow> request \<Rightarrow> Manager" where
  "handle m (ReqRegister grp ident tp) = snd (Register m grp ident tp)"
| "handle m (ReqUnregister grp ident) = Unregister m grp ident"
| "handle m (ReqTeardown grp ident) = teardown m grp ident"
| "handle m (ReqDelivered grp ident part off) = Delivered m grp ident part off"
| "handle m (ReqCommit grp ident) = CommitOffsets m grp ident"

definition request_loop :: "request list \<Rightarrow> Manager" where
  "request_loop reqs = foldl handle NewManager_state reqs"

text \<open>The sessions of the registry that hold an identity.\<close>

definition active_sessions :: "Manager \<Rightarrow> string \<Rightarrow> string \<Rightarrow> ConsumerSession list" where
  "active_sessions m grp ident =
     map snd (filter (\<lambda>entry. fst entry = (grp, ident)) (registry m))"

section \<open>Startup\<close>

text \<open>
  A start with a usable configuration file, a signal later on, and a server and a
  manager that return once their contexts are cancelled: the process logs its way
  through the shutdown and ends with status 0.
\<close>

lemma main_graceful_shutdown:
  "main \<lparr>os_Open = (\<lambda>p. Inr ''{}''), json_Decode = (\<lambda>f m. (None, Map.empty))\<rparr>
        \<lparr>signal_arrives = True, ListenAndServe = (\<lambda>a. ReturnsOnCancel None),
         manager_Run = ReturnsOnCancel (), main_steps = 0\<rparr>
        [(''kafka'', ''kafka.json'')]
   = \<lparr>events =
        [Open ''kafka.json'', Close ''kafka.json'', Notify,
         Println ''Spawning Consumer Manager'', NewManager, Go_manager_Run,
         Println ''Spawning Redis server'', NewRedisServer 5, Go_ListenAndServe '':6380'',
         Println ''Received shutdown signal..'',
         Println ''Waiting for redis server to shutdown...'', Cancel redisCtx,
         Println ''Waiting for consumer manager to shutdown...'', Cancel managerCtx,
         Println ''Bye!''],
      ending = Exit 0, kafkacfg_of = Map.empty\<rparr>"
  by (simp add: main_def app_Run_def Before_def c_String_def Action_def run_def
      HandleExitCoder_def redis_goroutine_def manager_goroutine_def startup_events_def
      shutdown_manager_def)

subsection \<open>The events of run\<close>

lemma shutdown_manager_cases:
  "shutdown_manager env =
     ([Println ''Waiting for consumer manager to shutdown...'', Cancel managerCtx], Blocked)
   \<or> shutdown_manager env =
     ([Println ''Waiting for consumer manager to shutdown...'', Cancel managerCtx,
       Println ''Bye!''], Return ())"
  by (simp add: shutdown_manager_def manager_goroutine_def split: option.splits)

lemma killed_after_events: "set (fst (killed_after n e k)) \<subseteq> set (fst k)"
  by (cases k) (auto simp add: killed_after_def split: ending.splits dest: in_set_takeD)



lemma shutdown_manager_events:
  "set (fst (shutdown_manager env)) \<subseteq>
     {Println ''Waiting for consumer manager to shutdown...'', Cancel managerCtx,
      Println ''Bye!''}"
  using shutdown_manager_cases [of env] by auto

lemma shutdown_manager_event:
  "x \<in> set (fst (shutdown_manager env)) \<Longrightarrow>
   x \<in> {Println ''Waiting for consumer manager to shutdown...'', Cancel managerCtx,
         Println ''Bye!''}"
  using shutdown_manager_events [of env] by auto

lemma killed_after_event:
  "x \<in> set (fst (killed_after n e (shutdown_manager env))) \<Longrightarrow>
   x \<in> {Println ''Waiting for consumer manager to shutdown...'', Cancel managerCtx,
         Println ''Bye!''}"
  using killed_after_events [of n e "shutdown_manager env"] shutdown_manager_events [of env]
  by auto

lemma run_events:
  "set (fst (run env c)) \<subseteq>
     set startup_events \<union>
     {Println ''Received shutdown signal..'', Println ''Waiting for redis server to shutdown...'',
      Cancel redisCtx, Println ''Waiting for consumer manager to shutdown...'',
      Cancel managerCtx, Println ''Bye!''} \<union> range Panic"
  by (auto simp add: run_def Let_def case_prod_beta split: goroutine.splits if_splits
      dest: shutdown_manager_event killed_after_event)

subsection \<open>What the startup hook returns\<close>

lemma Before_no_kafka:
  "c_String c ''kafka'' = [] \<Longrightarrow>
   Before os c cfg = (Some (ExitError ''No kafka configuration!'' 1), cfg, [])"
  by (simp add: Before_def NewExitError_def)

lemma Before_open_fails:
  "c_String c ''kafka'' \<noteq> [] \<Longrightarrow> os_Open os (c_String c ''kafka'') = Inl e \<Longrightarrow>
   Before os c cfg = (Some e, cfg, [])"
  by (simp add: Before_def)

lemma Before_events:
  "set (snd (snd (Before os c cfg))) \<subseteq> {Open (c_String c ''kafka''), Close (c_String c ''kafka'')}"
  by (auto simp add: Before_def split: sum.splits option.splits prod.splits)

lemma HandleExitCoder_events: "set (fst (HandleExitCoder e)) \<subseteq> range Stderr"
  by (simp add: HandleExitCoder_def split: option.splits go_error.splits)

lemma run_events_kinds:
  "set (fst (run env c)) \<inter> (range Stderr \<union> range Open \<union> range Close) = {}"
  using run_events [of env c] by (auto simp add: startup_events_def)

lemma main_events: "events (main os env c) = events (app_Run os env c Map.empty)"
  by (simp add: main_def Let_def split: ending.splits)

lemma app_Run_failed:
  assumes "fst (Before os c cfg) = Some e"
  shows "events (app_Run os env c cfg) =
           snd (snd (Before os c cfg)) @ fst (HandleExitCoder (Some e))"
  using assms by (auto simp add: app_Run_def split: prod.splits option.splits)

lemma app_Run_passed:
  assumes "fst (Before os c cfg) = None"
  shows "events (app_Run os env c cfg) = snd (snd (Before os c cfg)) @ fst (run env c)"
    and "snd (run env c) = Crash e \<Longrightarrow> ending (app_Run os env c cfg) = Crash e"
proof -
  obtain cfg' evs where b: "Before os c cfg = (None, cfg', evs)"
    using assms by (cases "Before os c cfg") auto
  obtain evs' r where r: "run env c = (evs', r)"
    by (cases "run env c") auto
  show "events (app_Run os env c cfg) = snd (snd (Before os c cfg)) @ fst (run env c)"
    by (cases r) (simp_all add: app_Run_def b r Action_def HandleExitCoder_def)
  show "ending (app_Run os env c cfg) = Crash e" if "snd (run env c) = Crash e"
    using that by (simp add: app_Run_def b r Action_def)
qed

text \<open>
  When the hook returns an error, the trace of the process holds file and error stream
  events only: nothing is spawned and no event of \<^verbatim>\<open>run\<close> occurs.
\<close>

lemma failed_startup_runs_nothing:
  assumes "fst (Before os c Map.empty) = Some e"
  shows "spawned (events (main os env c)) = []"
    and "set (events (main os env c)) \<inter> set (fst (run env c)) = {}"
proof -
  let ?evs = "events (main os env c)"
  have evs: "?evs = snd (snd (Before os c Map.empty)) @ fst (HandleExitCoder (Some e))"
    using assms by (simp add: main_events app_Run_failed)
  have sub: "set ?evs \<subseteq> range Stderr \<union> range Open \<union> range Close"
    using Before_events [of os c Map.empty] HandleExitCoder_events [of "Some e"]
    unfolding evs by auto
  show "spawned ?evs = []"
    using sub by (auto simp add: spawned_def filter_empty_conv)
  show "set ?evs \<inter> set (fst (run env c)) = {}"
    using sub run_events_kinds [of env c] by blast
qed

text \<open>
  Claim C9. Startup fails before any server or Manager is spawned whenever the
  log-client configuration is unusable. With no \<^verbatim>\<open>kafka\<close> flag the process prints
  "No kafka configuration!" and exits with code 1. When the file cannot be opened, or
  its contents do not decode, the startup hook returns that error, nothing is spawned,
  and no event of \<^verbatim>\<open>run\<close> is in the trace of the process.
\<close>

theorem startup_fails_on_unusable_configuration:
  "(c_String c ''kafka'' = [] \<longrightarrow>
      events (main os env c) = [Stderr ''No kafka configuration!''] \<and>
      ending (main os env c) = Exit 1)
   \<and> (c_String c ''kafka'' \<noteq> [] \<and> os_Open os (c_String c ''kafka'') = Inl e \<longrightarrow>
      fst (Before os c Map.empty) = Some e \<and>
      spawned (events (main os env c)) = [] \<and>
      set (events (main os env c)) \<inter> set (fst (run env c)) = {})
   \<and> (c_String c ''kafka'' \<noteq> [] \<and> os_Open os (c_String c ''kafka'') = Inr f \<and>
       fst (json_Decode os f Map.empty) = Some e \<longrightarrow>
      fst (Before os c Map.empty) = Some e \<and>
      spawned (events (main os env c)) = [] \<and>
      set (events (main os env c)) \<inter> set (fst (run env c)) = {})"
proof (intro conjI impI)
  assume "c_String c ''kafka'' = []"
  then have b: "Before os c Map.empty = (Some (ExitError ''No kafka configuration!'' 1), Map.empty, [])"
    by (rule Before_no_kafka)
  show "events (main os env c) = [Stderr ''No kafka configuration!'']"
    by (simp add: main_def app_Run_def b HandleExitCoder_def)
  show "ending (main os env c) = Exit 1"
    by (simp add: main_def app_Run_def b HandleExitCoder_def)
next
  assume "c_String c ''kafka'' \<noteq> [] \<and> os_Open os (c_String c ''kafka'') = Inl e"
  then show b: "fst (Before os c Map.empty) = Some e"
    by (simp add: Before_open_fails)
  show "spawned (events (main os env c)) = []"
    using b by (rule failed_startup_runs_nothing)
  show "set (events (main os env c)) \<inter> set (fst (run env c)) = {}"
    using b by (rule failed_startup_runs_nothing)
next
  assume "c_String c ''kafka'' \<noteq> [] \<and> os_Open os (c_String c ''kafka'') = Inr f \<and>
       fst (json_Decode os f Map.empty) = Some e"
  then show b: "fst (Before os c Map.empty) = Some e"
    by (cases "json_Decode os f Map.empty") (simp add: Before_def)
  show "spawned (events (main os env c)) = []"
    using b by (rule failed_startup_runs_nothing)
  show "set (events (main os env c)) \<inter> set (fst (run env c)) = {}"
    using b by (rule failed_startup_runs_nothing)
qed

text \<open>
  The three failures at concrete inputs: no \<^verbatim>\<open>kafka\<close> flag, a file that cannot
  be opened, and a file whose contents do not decode.
\<close>

theorem startup_fails_on_unusable_configuration_witness:
  "ending (main \<lparr>os_Open = (\<lambda>p. Inl (Err ''no such file'')), json_Decode = (\<lambda>f m. (None, m))\<rparr>
             \<lparr>signal_arrives = True, ListenAndServe = (\<lambda>a. ReturnsOnCancel None), manager_Run = ReturnsOnCancel (), main_steps = 0\<rparr>
             [(''consumer'', ''kafka'')]) = Exit 1
   \<and> fst (Before \<lparr>os_Open = (\<lambda>p. Inl (Err ''no such file'')), json_Decode = (\<lambda>f m. (None, m))\<rparr>
             [(''kafka'', ''kafka.json'')] Map.empty) = Some (Err ''no such file'')
   \<and> spawned (events (main \<lparr>os_Open = (\<lambda>p. Inl (Err ''no such file'')), json_Decode = (\<lambda>f m. (None, m))\<rparr>
             \<lparr>signal_arrives = True, ListenAndServe = (\<lambda>a. ReturnsOnCancel None), manager_Run = ReturnsOnCancel (), main_steps = 0\<rparr>
             [(''kafka'', ''kafka.json'')])) = []
   \<and> fst (Before \<lparr>os_Open = (\<lambda>p. Inr ''{''), json_Decode = (\<lambda>f m. (Some (Err ''unexpected EOF''), m))\<rparr>
             [(''kafka'', ''kafka.json'')] Map.empty) = Some (Err ''unexpected EOF'')
   \<and> spawned (events (main \<lparr>os_Open = (\<lambda>p. Inr ''{''), json_Decode = (\<lambda>f m. (Some (Err ''unexpected EOF''), m))\<rparr>
             \<lparr>signal_arrives = True, ListenAndServe = (\<lambda>a. ReturnsOnCancel None), manager_Run = ReturnsOnCancel (), main_steps = 0\<rparr>
             [(''kafka'', ''kafka.json'')])) = []"
  using
    startup_fails_on_unusable_configuration
      [of "[(''consumer'', ''kafka'')]"
          "\<lparr>os_Open = (\<lambda>p. Inl (Err ''no such file'')), json_Decode = (\<lambda>f m. (None, m))\<rparr>"
          "\<lparr>signal_arrives = True, ListenAndServe = (\<lambda>a. ReturnsOnCancel None), manager_Run = ReturnsOnCancel (), main_steps = 0\<rparr>"
          "Err ''no such file''" "[]"]
    startup_fails_on_unusable_configuration
      [of "[(''kafka'', ''kafka.json'')]"
          "\<lparr>os_Open = (\<lambda>p. Inl (Err ''no such file'')), json_Decode = (\<lambda>f m. (None, m))\<rparr>"
          "\<lparr>signal_arrives = True, ListenAndServe = (\<lambda>a. ReturnsOnCancel None), manager_Run = ReturnsOnCancel (), main_steps = 0\<rparr>"
          "Err ''no such file''" "[]"]
    startup_fails_on_unusable_configuration
      [of "[(''kafka'', ''kafka.json'')]"
          "\<lparr>os_Open = (\<lambda>p. Inr ''{''), json_Decode = (\<lambda>f m. (Some (Err ''unexpected EOF''), m))\<rparr>"
          "\<lparr>signal_arrives = True, ListenAndServe = (\<lambda>a. ReturnsOnCancel None), manager_Run = ReturnsOnCancel (), main_steps = 0\<rparr>"
          "Err ''unexpected EOF''" "''{''"]
  by (simp add: c_String_def)

section \<open>The serving goroutine\<close>








section \<open>The listen address\<close>

lemma listen_addresses_append:
  "listen_addresses (xs @ ys) = listen_addresses xs @ listen_addresses ys"
  by (induction xs rule: listen_addresses.induct) simp_all

lemma listen_addresses_none:
  "set evs \<inter> range Go_ListenAndServe = {} \<Longrightarrow> listen_addresses evs = []"
  by (induction evs rule: listen_addresses.induct) auto

lemma shutdown_manager_listen_addresses:
  "listen_addresses (fst (shutdown_manager env)) = []"
  by (rule listen_addresses_none) (auto dest: shutdown_manager_event)

lemma killed_after_listen_addresses:
  "listen_addresses (fst (killed_after n e (shutdown_manager env))) = []"
  by (rule listen_addresses_none) (auto dest: killed_after_event)

lemma run_listen_addresses: "listen_addresses (fst (run env c)) = ['':6380'']"
  by (auto simp add: run_def Let_def case_prod_beta startup_events_def
      listen_addresses_append shutdown_manager_listen_addresses
      killed_after_listen_addresses split: goroutine.splits)

lemma Before_listen_addresses: "listen_addresses (snd (snd (Before os c cfg))) = []"
  by (simp add: Before_def split: sum.splits option.splits prod.splits)

lemma HandleExitCoder_listen_addresses: "listen_addresses (fst (HandleExitCoder e)) = []"
  by (simp add: HandleExitCoder_def split: option.splits go_error.splits)

lemma main_listen_addresses:
  "listen_addresses (events (main os env c)) =
     (if fst (Before os c Map.empty) = None then ['':6380''] else [])"
proof (cases "fst (Before os c Map.empty)")
  case None
  then have "events (main os env c) = snd (snd (Before os c Map.empty)) @ fst (run env c)"
    by (simp add: main_events app_Run_passed)
  then show ?thesis
    using None by (simp add: listen_addresses_append Before_listen_addresses run_listen_addresses)
next
  case (Some err)
  then have "events (main os env c) =
      snd (snd (Before os c Map.empty)) @ fst (HandleExitCoder (Some err))"
    by (simp add: main_events app_Run_failed)
  then show ?thesis
    using Some
    by (simp add: listen_addresses_append Before_listen_addresses HandleExitCoder_listen_addresses)
qed

text \<open>
  \<^verbatim>\<open>run\<close> asks the server to listen on ":6380" only: how a call of
  \<^verbatim>\<open>ListenAndServe\<close> on another address would end changes nothing.
\<close>

lemma run_other_address:
  assumes "a \<noteq> '':6380''"
  shows "run (env\<lparr>ListenAndServe := (ListenAndServe env)(a := b)\<rparr>) c = run env c"
proof -
  let ?env = "env\<lparr>ListenAndServe := (ListenAndServe env)(a := b)\<rparr>"
  have r: "redis_goroutine ?env x = redis_goroutine env x" for x
    using assms by (simp add: redis_goroutine_def)
  have m: "shutdown_manager ?env = shutdown_manager env"
    by (simp add: shutdown_manager_def manager_goroutine_def)
  have s: "signal_arrives ?env = signal_arrives env" "main_steps ?env = main_steps env"
    by simp_all
  show ?thesis
    unfolding run_def r m s ..
qed

text \<open>
  Claim C8, as the code has it. The address the server listens on is the constant
  ":6380" written in \<^verbatim>\<open>run\<close>: every call of \<^verbatim>\<open>run\<close> asks for ":6380"
  and for no other address. On a command line that holds the defined flags only, so
  that the library calls the hook and then the action, the process listens on ":6380"
  and on no other address once the startup hook has passed, and on none when the hook
  fails, whatever the values of the flags and whatever the configuration file holds.
  No flag and no key of the configuration supplies the address.
\<close>

theorem listen_address_is_fixed:
  "listen_addresses (fst (run env c)) = ['':6380'']
   \<and> (defined_flags c \<longrightarrow>
        listen_addresses (events (main os env c)) =
          (if fst (Before os c Map.empty) = None then ['':6380''] else []))
   \<and> (a \<noteq> '':6380'' \<longrightarrow>
        run (env\<lparr>ListenAndServe := (ListenAndServe env)(a := b)\<rparr>) c = run env c)"
  by (simp add: run_listen_addresses main_listen_addresses run_other_address)

theorem listen_address_is_fixed_witness:
  "defined_flags [(''consumer'', ''kafka''), (''kafka'', ''/etc/rafka/kafka.json'')]
   \<and> listen_addresses (events (main
      \<lparr>os_Open = (\<lambda>p. Inr ''{\"listen\": \":7000\"}''),
       json_Decode = (\<lambda>f m. (None, [''listen'' \<mapsto> CString '':7000'']))\<rparr>
      \<lparr>signal_arrives = True, ListenAndServe = (\<lambda>a. ReturnsOnCancel None),
       manager_Run = ReturnsOnCancel (), main_steps = 0\<rparr>
      [(''consumer'', ''kafka''), (''kafka'', ''/etc/rafka/kafka.json'')])) = ['':6380'']
   \<and> run (\<lparr>signal_arrives = True, ListenAndServe = (\<lambda>a. ReturnsOnCancel None),
            manager_Run = ReturnsOnCancel (), main_steps = 0\<rparr>
           \<lparr>ListenAndServe := (\<lambda>a. ReturnsOnCancel None)('':7000'' := Never)\<rparr>)
        [(''consumer'', ''kafka''), (''kafka'', ''/etc/rafka/kafka.json'')]
     = run \<lparr>signal_arrives = True, ListenAndServe = (\<lambda>a. ReturnsOnCancel None),
            manager_Run = ReturnsOnCancel (), main_steps = 0\<rparr>
        [(''consumer'', ''kafka''), (''kafka'', ''/etc/rafka/kafka.json'')]"
  using listen_address_is_fixed
      [of "\<lparr>signal_arrives = True, ListenAndServe = (\<lambda>a. ReturnsOnCancel None),
             manager_Run = ReturnsOnCancel (), main_steps = 0\<rparr>"
          "[(''consumer'', ''kafka''), (''kafka'', ''/etc/rafka/kafka.json'')]"
          "\<lparr>os_Open = (\<lambda>p. Inr ''{\"listen\": \":7000\"}''),
            json_Decode = (\<lambda>f m. (None, [''listen'' \<mapsto> CString '':7000'']))\<rparr>"
          "'':7000''" Never]
  by (simp add: Before_def c_String_def defined_flags_def)

text \<open>
  Claim C8, as the specification states it, fails. Started with the flags
  \<^verbatim>\<open>--consumer kafka --kafka /etc/rafka/kafka.json\<close>, which are the defined flags,
  and a configuration file that decodes to the single key "listen" with the value
  ":7000", the process listens on ":6380": an address that none of the flags holds and
  that differs from the one the configuration names.
\<close>

theorem listen_address_counterexample:
  "defined_flags [(''consumer'', ''kafka''), (''kafka'', ''/etc/rafka/kafka.json'')]
   \<and> listen_addresses (events (main
      \<lparr>os_Open = (\<lambda>p. Inr ''{\"listen\": \":7000\"}''),
       json_Decode = (\<lambda>f m. (None, [''listen'' \<mapsto> CString '':7000'']))\<rparr>
      \<lparr>signal_arrives = True, ListenAndServe = (\<lambda>a. ReturnsOnCancel None),
       manager_Run = ReturnsOnCancel (), main_steps = 0\<rparr>
      [(''consumer'', ''kafka''), (''kafka'', ''/etc/rafka/kafka.json'')])) = ['':6380'']
   \<and> kafkacfg_of (main
      \<lparr>os_Open = (\<lambda>p. Inr ''{\"listen\": \":7000\"}''),
       json_Decode = (\<lambda>f m. (None, [''listen'' \<mapsto> CString '':7000'']))\<rparr>
      \<lparr>signal_arrives = True, ListenAndServe = (\<lambda>a. ReturnsOnCancel None),
       manager_Run = ReturnsOnCancel (), main_steps = 0\<rparr>
      [(''consumer'', ''kafka''), (''kafka'', ''/etc/rafka/kafka.json'')])
       = [''listen'' \<mapsto> CString '':7000'']
   \<and> '':6380'' \<notin> set (map snd [(''consumer'', ''kafka''), (''kafka'', ''/etc/rafka/kafka.json'')])
   \<and> '':6380'' \<noteq> '':7000''"
  by (simp add: main_def app_Run_def Before_def c_String_def Action_def run_def
      HandleExitCoder_def redis_goroutine_def manager_goroutine_def startup_events_def
      shutdown_manager_def defined_flags_def)

section \<open>The registry of the manager\<close>

text \<open>
  Tearing a connection down leaves the registry that \<open>Unregister\<close> alone leaves (the
  session closed on the way is the one removed), and the committed offsets that the
  final commit of the session leaves.
\<close>

lemma CommitOffsets_registry: "registry (CommitOffsets m g i) = registry m"
  by (simp add: CommitOffsets_def split: option.splits)

lemma teardown_registry: "registry (teardown m g i) = registry (Unregister m g i)"
proof -
  have "filter (\<lambda>entry. fst entry \<noteq> (g, i))
          (map (\<lambda>entry. if fst entry = (g, i)
                   then (fst entry, Close_session (snd entry)) else entry) xs)
        = filter (\<lambda>entry. fst entry \<noteq> (g, i)) xs" for xs :: "(GroupIdentity \<times> ConsumerSession) list"
    by (induction xs) auto
  then show ?thesis
    by (simp add: teardown_def Unregister_def)
qed

lemma teardown_committed: "committed (teardown m g i) = committed (CommitOffsets m g i)"
  by (simp add: teardown_def Unregister_def)

lemma handle_distinct:
  assumes d: "distinct (map fst (registry m))"
  shows "distinct (map fst (registry (handle m r)))"
proof (cases r)
  case (ReqRegister g i t)
  show ?thesis
  proof (cases "Lookup m g i")
    case None
    then have "(g, i) \<notin> fst ` set (registry m)"
      by (simp add: Lookup_def map_of_eq_None_iff)
    then show ?thesis
      using d None by (simp add: ReqRegister Register_def Let_def)
  next
    case (Some s)
    then show ?thesis using d by (simp add: ReqRegister Register_def)
  qed
next
  case (ReqUnregister g i)
  show ?thesis
    using d by (simp add: ReqUnregister Unregister_def distinct_map_filter)
next
  case (ReqTeardown g i)
  show ?thesis
    using d by (simp add: ReqTeardown teardown_registry Unregister_def distinct_map_filter)
next
  case (ReqDelivered g i p off)
  have "map fst (registry (Delivered m g i p off)) = map fst (registry m)"
    by (simp add: Delivered_def comp_def)
  then show ?thesis using d by (simp add: ReqDelivered)
next
  case (ReqCommit g i)
  show ?thesis
    using d by (simp add: ReqCommit CommitOffsets_def split: option.splits)
qed

lemma foldl_handle_distinct:
  "distinct (map fst (registry m)) \<Longrightarrow> distinct (map fst (registry (foldl handle m reqs)))"
  by (induction reqs arbitrary: m) (simp_all add: handle_distinct)

lemma request_loop_distinct: "distinct (map fst (registry (request_loop reqs)))"
  by (simp add: request_loop_def foldl_handle_distinct NewManager_state_def)

lemma distinct_filter_le_one:
  "distinct (map fst xs) \<Longrightarrow> length (filter (\<lambda>entry. fst entry = k) xs) \<le> 1"
proof (induction xs)
  case Nil
  then show ?case by simp
next
  case (Cons x xs)
  show ?case
  proof (cases "fst x = k")
    case True
    with Cons.prems have "k \<notin> fst ` set xs" by auto
    then have "filter (\<lambda>entry. fst entry = k) xs = []"
      by (auto simp add: filter_empty_conv)
    with True show ?thesis by simp
  next
    case False
    with Cons show ?thesis by simp
  qed
qed

lemma Register_held:
  "Lookup m g i = Some s \<Longrightarrow> Register m g i t = (Inl DuplicateIdentity, m)"
  by (simp add: Register_def)

lemma Register_free:
  assumes "Lookup m g i = None"
  shows "fst (Register m g i t) = Inr (NewConsumerSession m g i t)"
    and "Lookup (snd (Register m g i t)) g i = Some (NewConsumerSession m g i t)"
    and "registry (snd (Register m g i t)) = registry m @ [((g, i), NewConsumerSession m g i t)]"
  using assms by (simp_all add: Register_def Let_def Lookup_def map_add_Some_iff)

lemma active_sessions_free:
  assumes "Lookup m g i = None"
  shows "active_sessions m g i = []"
proof -
  have "(g, i) \<notin> fst ` set (registry m)"
    using assms by (simp add: Lookup_def map_of_eq_None_iff)
  then have "filter (\<lambda>entry. fst entry = (g, i)) (registry m) = []"
    by (force simp add: filter_empty_conv)
  then show ?thesis by (simp add: active_sessions_def)
qed

lemma Unregister_Lookup: "Lookup (Unregister m g i) g i = None"
  by (auto simp add: Lookup_def Unregister_def map_of_eq_None_iff)

text \<open>
  Claim C1. Every Group Identity has at most one active Consumer Session, in every
  state the request loop of the manager reaches. A \<open>Register\<close> for an identity that
  an active session holds fails with \<open>DuplicateIdentity\<close> and leaves the manager,
  and so the session that holds the identity, as it was. Otherwise \<open>Register\<close>
  returns a new session for the identity, bound to the topic and running, which it has
  added to the registry and which is then the one session of the identity.
\<close>

theorem one_active_session_per_identity:
  "length (active_sessions (request_loop reqs) g i) \<le> 1
   \<and> (Lookup m g i = Some held \<longrightarrow>
        Register m g i t = (Inl DuplicateIdentity, m))
   \<and> (Lookup m g i = None \<longrightarrow>
        fst (Register m g i t) = Inr (NewConsumerSession m g i t)
        \<and> identity (NewConsumerSession m g i t) = (g, i)
        \<and> topic (NewConsumerSession m g i t) = t
        \<and> state (NewConsumerSession m g i t) = Running
        \<and> registry (snd (Register m g i t)) = registry m @ [((g, i), NewConsumerSession m g i t)]
        \<and> Lookup (snd (Register m g i t)) g i = Some (NewConsumerSession m g i t)
        \<and> active_sessions (snd (Register m g i t)) g i = [NewConsumerSession m g i t])"
proof (intro conjI impI)
  show "length (active_sessions (request_loop reqs) g i) \<le> 1"
    using distinct_filter_le_one [OF request_loop_distinct]
    by (simp add: active_sessions_def)
next
  assume "Lookup m g i = Some held"
  then show "Register m g i t = (Inl DuplicateIdentity, m)"
    by (rule Register_held)
next
  assume free: "Lookup m g i = None"
  show "fst (Register m g i t) = Inr (NewConsumerSession m g i t)"
    using free by (rule Register_free)
  show "identity (NewConsumerSession m g i t) = (g, i)"
    by (simp add: NewConsumerSession_def)
  show "topic (NewConsumerSession m g i t) = t"
    by (simp add: NewConsumerSession_def)
  show "state (NewConsumerSession m g i t) = Running"
    by (simp add: NewConsumerSession_def)
  show r: "registry (snd (Register m g i t)) = registry m @ [((g, i), NewConsumerSession m g i t)]"
    using free by (rule Register_free)
  show "Lookup (snd (Register m g i t)) g i = Some (NewConsumerSession m g i t)"
    using free by (rule Register_free)
  show "active_sessions (snd (Register m g i t)) g i = [NewConsumerSession m g i t]"
    using active_sessions_free [OF free] by (simp add: active_sessions_def r)
qed

text \<open>
  The uniqueness test of the end-to-end suite: the second registration of an identity
  fails while the first session lives; on a new manager the registration succeeds.
\<close>

theorem one_active_session_per_identity_witness:
  "length (active_sessions (request_loop [ReqRegister ''g1'' ''c1'' ''a-topic'']) ''g1'' ''c1'') \<le> 1
   \<and> fst (Register (request_loop [ReqRegister ''g1'' ''c1'' ''a-topic'']) ''g1'' ''c1'' ''a-topic'')
       = Inl DuplicateIdentity
   \<and> snd (Register (request_loop [ReqRegister ''g1'' ''c1'' ''a-topic'']) ''g1'' ''c1'' ''a-topic'')
       = request_loop [ReqRegister ''g1'' ''c1'' ''a-topic'']
   \<and> fst (Register (request_loop []) ''g1'' ''c1'' ''a-topic'')
       = Inr (NewConsumerSession (request_loop []) ''g1'' ''c1'' ''a-topic'')"
  using
    one_active_session_per_identity
      [of "[ReqRegister ''g1'' ''c1'' ''a-topic'']" "''g1''" "''c1''"
          "request_loop [ReqRegister ''g1'' ''c1'' ''a-topic'']"
          "NewConsumerSession NewManager_state ''g1'' ''c1'' ''a-topic''" "''a-topic''"]
    one_active_session_per_identity
      [of "[]" "''g1''" "''c1''" "request_loop []"
          "NewConsumerSession NewManager_state ''g1'' ''c1'' ''a-topic''" "''a-topic''"]
  by (simp add: request_loop_def Register_def Lookup_def NewManager_state_def Let_def)

lemma teardown_Lookup: "Lookup (teardown m g i) g i = None"
  using Unregister_Lookup [of m g i] by (simp add: Lookup_def teardown_registry)

lemma CommitOffsets_committed:
  assumes "Lookup m g i = Some s"
  shows "committed (CommitOffsets m g i) g (topic s) = committed m g (topic s) ++ offsets s"
    and "t \<noteq> topic s \<Longrightarrow> committed (CommitOffsets m g i) g t = committed m g t"
  using assms by (simp_all add: CommitOffsets_def)

text \<open>
  A commit of one member of a group leaves what another member has committed for a
  partition that the first does not track.
\<close>

lemma CommitOffsets_other_partition:
  assumes "Lookup m g i = Some s" and "offsets s part = None"
  shows "committed (CommitOffsets m g i) g (topic s) part = committed m g (topic s) part"
  using assms by (simp add: CommitOffsets_def map_add_def)

lemma CommitOffsets_two_members:
  "committed (request_loop
       [ReqRegister ''cgroupA'' ''cons1'' ''a-topic'',
        ReqRegister ''cgroupA'' ''cons2'' ''a-topic'',
        ReqDelivered ''cgroupA'' ''cons1'' 0 6,
        ReqDelivered ''cgroupA'' ''cons2'' 1 3,
        ReqCommit ''cgroupA'' ''cons1'',
        ReqCommit ''cgroupA'' ''cons2'']) ''cgroupA'' ''a-topic''
   = [0 \<mapsto> 7, 1 \<mapsto> 4]"
  by (simp add: request_loop_def Register_def Lookup_def NewManager_state_def Let_def
      Delivered_def CommitOffsets_def NewConsumerSession_def)

text \<open>
  Claim C5. Once a Consumer Session that holds (group, id) has closed, by the teardown
  of its connection, the identity is free: a \<open>Register\<close> with the same (group, id)
  succeeds and returns a running session. That session resumes from the offsets then
  committed for the group: on the topic of the closed session these are the offsets
  that the closed session tracked, for the partitions it was delivered messages of,
  and the offsets committed before the close for the other partitions; on another
  topic they are the offsets committed before the close.
\<close>

theorem identity_reclaimable_after_close:
  "Lookup m g i = Some s \<longrightarrow>
     Lookup (teardown m g i) g i = None
     \<and> fst (Register (teardown m g i) g i t) = Inr (NewConsumerSession (teardown m g i) g i t)
     \<and> Lookup (snd (Register (teardown m g i) g i t)) g i
         = Some (NewConsumerSession (teardown m g i) g i t)
     \<and> state (NewConsumerSession (teardown m g i) g i t) = Running
     \<and> start_offsets (NewConsumerSession (teardown m g i) g i t) = committed (teardown m g i) g t
     \<and> start_offsets (NewConsumerSession (teardown m g i) g i (topic s))
         = committed m g (topic s) ++ offsets s
     \<and> (t \<noteq> topic s \<longrightarrow>
          start_offsets (NewConsumerSession (teardown m g i) g i t) = committed m g t)"
proof (intro impI conjI)
  assume held: "Lookup m g i = Some s"
  show free: "Lookup (teardown m g i) g i = None"
    by (rule teardown_Lookup)
  show "fst (Register (teardown m g i) g i t) = Inr (NewConsumerSession (teardown m g i) g i t)"
    using free by (rule Register_free)
  show "Lookup (snd (Register (teardown m g i) g i t)) g i
         = Some (NewConsumerSession (teardown m g i) g i t)"
    using free by (rule Register_free)
  show "state (NewConsumerSession (teardown m g i) g i t) = Running"
    by (simp add: NewConsumerSession_def)
  show "start_offsets (NewConsumerSession (teardown m g i) g i t) = committed (teardown m g i) g t"
    by (simp add: NewConsumerSession_def)
  show "start_offsets (NewConsumerSession (teardown m g i) g i (topic s))
         = committed m g (topic s) ++ offsets s"
    using CommitOffsets_committed(1) [OF held]
    by (simp add: NewConsumerSession_def teardown_committed)
  show "start_offsets (NewConsumerSession (teardown m g i) g i t) = committed m g t"
    if "t \<noteq> topic s"
    using CommitOffsets_committed(2) [OF held that]
    by (simp add: NewConsumerSession_def teardown_committed)
qed

text \<open>
  The reconnect test of the end-to-end suite, on one partition: a consumer of group
  "a_group" is delivered the message at offset 0 and closes; the consumer that then
  registers under the same identity resumes at offset 1, so the first message is not
  delivered again.
\<close>

theorem identity_reclaimable_after_close_witness:
  "Lookup (request_loop
       [ReqRegister ''a_group'' ''cons'' ''a-topic'',
        ReqDelivered ''a_group'' ''cons'' 0 0]) ''a_group'' ''cons'' \<noteq> None
   \<and> Lookup (teardown (request_loop
       [ReqRegister ''a_group'' ''cons'' ''a-topic'',
        ReqDelivered ''a_group'' ''cons'' 0 0]) ''a_group'' ''cons'') ''a_group'' ''cons'' = None
   \<and> fst (Register (teardown (request_loop
       [ReqRegister ''a_group'' ''cons'' ''a-topic'',
        ReqDelivered ''a_group'' ''cons'' 0 0]) ''a_group'' ''cons'')
         ''a_group'' ''cons'' ''a-topic'')
       = Inr (NewConsumerSession (teardown (request_loop
       [ReqRegister ''a_group'' ''cons'' ''a-topic'',
        ReqDelivered ''a_group'' ''cons'' 0 0]) ''a_group'' ''cons'')
         ''a_group'' ''cons'' ''a-topic'')
   \<and> start_offsets (NewConsumerSession (teardown (request_loop
       [ReqRegister ''a_group'' ''cons'' ''a-topic'',
        ReqDelivered ''a_group'' ''cons'' 0 0]) ''a_group'' ''cons'')
         ''a_group'' ''cons'' ''a-topic'') 0 = Some 1"
  using
    identity_reclaimable_after_close
      [of "request_loop
             [ReqRegister ''a_group'' ''cons'' ''a-topic'',
              ReqDelivered ''a_group'' ''cons'' 0 0]"
          "''a_group''" "''cons''"
          "the (Lookup (request_loop
             [ReqRegister ''a_group'' ''cons'' ''a-topic'',
              ReqDelivered ''a_group'' ''cons'' 0 0]) ''a_group'' ''cons'')"
          "''a-topic''"]
  by (simp add: request_loop_def Register_def Lookup_def NewManager_state_def Let_def
      Delivered_def NewConsumerSession_def)

text \<open>
  The same test goes on with a consumer of another group: nothing is committed for that
  group, so it starts with no offset and is delivered the topic from its beginning.
\<close>

lemma reconnect_another_group:
  "start_offsets (NewConsumerSession (teardown (request_loop
       [ReqRegister ''a_group'' ''cons'' ''a-topic'',
        ReqDelivered ''a_group'' ''cons'' 0 0]) ''a_group'' ''cons'')
         ''another_group'' ''cons'' ''a-topic'') 0 = None"
  by (simp add: request_loop_def Register_def Lookup_def NewManager_state_def Let_def
      Delivered_def NewConsumerSession_def teardown_committed CommitOffsets_def)

end
